theory Spec2Isabelle
  imports Complex_Main "HOL-Library.Multiset" "HOL-Library.Product_Lexorder"
begin

section \<open>Payroll: wage calculation, mark-paid, attendance insert, reports, row policies\<close>

text \<open>
  The development embeds four pieces of the repository:
  \<^item> the schema and the row-level-security policies of the SQL migration
    (tables \<open>user_roles\<close>, \<open>employees\<close>, \<open>attendance\<close>, \<open>wages\<close>, the function
    \<open>has_role\<close>, the trigger function \<open>update_updated_at_column\<close>);
  \<^item> \<open>calculateWage\<close> and \<open>markAsPaid\<close> of \<open>Wages.tsx\<close>;
  \<^item> \<open>handleSubmit\<close> of the attendance page;
  \<^item> \<open>calculateStats\<close> of \<open>Reports.tsx\<close>.

  Numbers. The TypeScript \<open>number\<close> values and the \<open>DECIMAL\<close> columns are modelled as
  exact rationals: binary floating-point rounding and the rescaling of a value to two
  decimals when it is stored are outside the model. Identifiers are strings, a calendar
  date is a triple (year, month, day) ordered lexicographically as \<open>DATE\<close> values are,
  and a timestamp is a natural number.

  Storage. A statement fails only through a check the migration declares: a row policy,
  the unique constraint of \<open>attendance\<close>, a foreign key. The \<open>CHECK\<close> constraints on the
  three status columns are carried by the datatypes. Network and other transient failures
  are outside the model. The columns \<open>overtime_hours\<close>, \<open>advance_taken\<close>,
  \<open>overtime_amount\<close>, \<open>advance_deductions\<close> and \<open>paid\<close>, which the schema leaves nullable
  with a default, are never NULL here, as the interfaces of the pages type them.
\<close>

subsection \<open>Schema\<close>

type_synonym uuid = string
type_synonym date = "nat \<times> nat \<times> nat"
type_synonym timestamp = nat

datatype app_role = Admin | Employee

record user_role =
  ur_id :: uuid
  ur_user_id :: uuid
  ur_role :: app_role

text \<open>\<open>status TEXT CHECK (status IN ('active', 'inactive'))\<close>\<close>

datatype employee_status = Active | Inactive

record employee =
  e_id :: uuid
  e_user_id :: "uuid option"
  e_full_name :: string
  e_email :: "string option"
  e_phone :: "string option"
  e_daily_wage :: rat
  e_overtime_rate :: rat
  e_half_day_rate :: rat
  e_status :: employee_status

text \<open>\<open>status TEXT NOT NULL CHECK (status IN ('present', 'absent', 'half_day'))\<close>\<close>

datatype attendance_status = Present | Absent | Half_day

record attendance =
  a_id :: uuid
  a_employee_id :: uuid
  a_date :: date
  a_status :: attendance_status
  a_overtime_hours :: rat
  a_advance_taken :: rat
  a_notes :: "string option"
  a_created_at :: timestamp
  a_updated_at :: timestamp

text \<open>\<open>calculation_type TEXT NOT NULL CHECK (calculation_type IN ('daily', 'weekly', 'monthly'))\<close>;
  the form offers exactly these three values.\<close>

datatype calculation_type = Daily | Weekly | Monthly

record wage =
  w_id :: uuid
  w_employee_id :: uuid
  w_period_start :: date
  w_period_end :: date
  w_calculation_type :: calculation_type
  w_base_wage :: rat
  w_overtime_amount :: rat
  w_advance_deductions :: rat
  w_total_wage :: rat
  w_paid :: bool
  w_paid_at :: "timestamp option"
  w_created_at :: timestamp
  w_updated_at :: timestamp

record db =
  db_user_roles :: "user_role list"
  db_employees :: "employee list"
  db_attendance :: "attendance list"
  db_wages :: "wage list"

text \<open>
  What a request reads from outside the tables: the acting principal (\<open>auth.uid()\<close>, NULL
  for an anonymous session), the server clock (\<open>now()\<close>), the identifier
  \<open>gen_random_uuid()\<close> gives to a new row, and the browser clock read by
  \<open>new Date().toISOString()\<close>.
\<close>

record env =
  auth_uid :: "uuid option"
  now :: timestamp
  gen_random_uuid :: uuid
  client_now :: timestamp

subsection \<open>Row-level security\<close>

text \<open>SQL equality of two nullable values, read as a condition: NULL on either side is
  not true.\<close>

definition sql_eq :: "'a option \<Rightarrow> 'a option \<Rightarrow> bool" where
  "sql_eq x y = (case x of None \<Rightarrow> False | Some a \<Rightarrow> (case y of None \<Rightarrow> False | Some b \<Rightarrow> a = b))"

text \<open>\<open>SELECT EXISTS (SELECT 1 FROM public.user_roles WHERE user_id = _user_id AND role = _role)\<close>\<close>

definition has_role :: "user_role list \<Rightarrow> uuid option \<Rightarrow> app_role \<Rightarrow> bool" where
  "has_role user_roles uid role =
     list_ex (\<lambda>r. sql_eq (Some (ur_user_id r)) uid \<and> ur_role r = role) user_roles"

datatype command = SELECT | INSERT | UPDATE | DELETE

text \<open>The policies of one table and one command are permissive, so they are joined by
  \<open>OR\<close>; a command with no policy is denied.\<close>

definition employees_policy :: "db \<Rightarrow> uuid option \<Rightarrow> command \<Rightarrow> employee \<Rightarrow> bool" where
  "employees_policy d uid cmd row =
     (case cmd of
        SELECT \<Rightarrow> has_role (db_user_roles d) uid Admin \<or> sql_eq uid (e_user_id row)
      | INSERT \<Rightarrow> has_role (db_user_roles d) uid Admin
      | UPDATE \<Rightarrow> has_role (db_user_roles d) uid Admin
      | DELETE \<Rightarrow> has_role (db_user_roles d) uid Admin)"

definition attendance_policy :: "db \<Rightarrow> uuid option \<Rightarrow> command \<Rightarrow> attendance \<Rightarrow> bool" where
  "attendance_policy d uid cmd row =
     (case cmd of
        SELECT \<Rightarrow> has_role (db_user_roles d) uid Admin \<or>
                  list_ex (\<lambda>e. e_id e = a_employee_id row \<and> sql_eq (e_user_id e) uid) (db_employees d)
      | INSERT \<Rightarrow> has_role (db_user_roles d) uid Admin
      | UPDATE \<Rightarrow> has_role (db_user_roles d) uid Admin
      | DELETE \<Rightarrow> has_role (db_user_roles d) uid Admin)"

definition wages_policy :: "db \<Rightarrow> uuid option \<Rightarrow> command \<Rightarrow> wage \<Rightarrow> bool" where
  "wages_policy d uid cmd row =
     (case cmd of
        SELECT \<Rightarrow> has_role (db_user_roles d) uid Admin \<or>
                  list_ex (\<lambda>e. e_id e = w_employee_id row \<and> sql_eq (e_user_id e) uid) (db_employees d)
      | INSERT \<Rightarrow> has_role (db_user_roles d) uid Admin
      | UPDATE \<Rightarrow> has_role (db_user_roles d) uid Admin
      | DELETE \<Rightarrow> has_role (db_user_roles d) uid Admin)"

datatype row = Employee_row employee | Attendance_row attendance | Wage_row wage

fun allowed :: "db \<Rightarrow> uuid option \<Rightarrow> command \<Rightarrow> row \<Rightarrow> bool" where
  "allowed d uid cmd (Employee_row e) = employees_policy d uid cmd e"
| "allowed d uid cmd (Attendance_row a) = attendance_policy d uid cmd a"
| "allowed d uid cmd (Wage_row w) = wages_policy d uid cmd w"

text \<open>The owning-principal link of an employee row: \<open>employees.user_id\<close> is set and is
  the acting principal.\<close>

definition owns :: "uuid option \<Rightarrow> employee \<Rightarrow> bool" where
  "owns uid e = (uid \<noteq> None \<and> e_user_id e = uid)"

subsection \<open>Statements run by the pages\<close>

text \<open>An error of the storage layer carries an SQLSTATE code and a message. The unique
  violation is the code the attendance page tests for.\<close>

datatype pg_error = Pg_error (code: string) (message: string)

definition unique_violation :: pg_error where
  "unique_violation = Pg_error ''23505'' ''duplicate key value violates unique constraint''"

definition rls_violation :: pg_error where
  "rls_violation = Pg_error ''42501'' ''new row violates row-level security policy''"

definition foreign_key_violation :: pg_error where
  "foreign_key_violation = Pg_error ''23503'' ''insert or update violates foreign key constraint''"

text \<open>\<open>BEFORE UPDATE ON public.wages FOR EACH ROW\<close>: \<open>NEW.updated_at = now()\<close>.\<close>

definition update_updated_at_column :: "env \<Rightarrow> wage \<Rightarrow> wage" where
  "update_updated_at_column en new = new\<lparr>w_updated_at := now en\<rparr>"

text \<open>\<open>from("attendance").select("*").eq("employee_id", id).gte("date", start).lte("date", end)\<close>:
  the rows the SELECT policies let the principal see, restricted by the three filters.\<close>

definition select_attendance :: "env \<Rightarrow> db \<Rightarrow> uuid \<Rightarrow> date \<Rightarrow> date \<Rightarrow> attendance list" where
  "select_attendance en d employee_id period_start period_end =
     filter (\<lambda>a. attendance_policy d (auth_uid en) SELECT a \<and>
                 a_employee_id a = employee_id \<and>
                 period_start \<le> a_date a \<and> a_date a \<le> period_end)
            (db_attendance d)"

text \<open>The columns the wage page sends; the others take their defaults
  (\<open>id\<close>, \<open>paid = false\<close>, \<open>paid_at\<close> NULL, \<open>created_at = updated_at = now()\<close>).
  The row is checked against the INSERT policy, then against the foreign key.\<close>

record wage_values =
  wv_employee_id :: uuid
  wv_period_start :: date
  wv_period_end :: date
  wv_calculation_type :: calculation_type
  wv_base_wage :: rat
  wv_overtime_amount :: rat
  wv_advance_deductions :: rat
  wv_total_wage :: rat

definition insert_wages :: "env \<Rightarrow> db \<Rightarrow> wage_values \<Rightarrow> pg_error + db" where
  "insert_wages en d v =
     (let new = \<lparr>w_id = gen_random_uuid en,
                 w_employee_id = wv_employee_id v,
                 w_period_start = wv_period_start v,
                 w_period_end = wv_period_end v,
                 w_calculation_type = wv_calculation_type v,
                 w_base_wage = wv_base_wage v,
                 w_overtime_amount = wv_overtime_amount v,
                 w_advance_deductions = wv_advance_deductions v,
                 w_total_wage = wv_total_wage v,
                 w_paid = False,
                 w_paid_at = None,
                 w_created_at = now en,
                 w_updated_at = now en\<rparr>
      in if \<not> wages_policy d (auth_uid en) INSERT new then Inl rls_violation
         else if \<not> list_ex (\<lambda>e. e_id e = w_employee_id new) (db_employees d)
           then Inl foreign_key_violation
         else Inr (d\<lparr>db_wages := db_wages d @ [new]\<rparr>))"

text \<open>\<open>from("wages").update({paid, paid_at}).eq("id", id)\<close>: the rows matching the filter
  that the principal may see and update are rewritten, each through the trigger; a new
  row is checked against the UPDATE policy again. No matching row is no error.\<close>

definition update_wages_paid :: "env \<Rightarrow> db \<Rightarrow> uuid \<Rightarrow> bool \<Rightarrow> timestamp option \<Rightarrow> pg_error + db" where
  "update_wages_paid en d wid paid paid_at =
     (let target = (\<lambda>w. w_id w = wid \<and> wages_policy d (auth_uid en) SELECT w \<and>
                        wages_policy d (auth_uid en) UPDATE w);
          new = (\<lambda>w. update_updated_at_column en (w\<lparr>w_paid := paid, w_paid_at := paid_at\<rparr>))
      in if list_ex (\<lambda>w. target w \<and> \<not> wages_policy d (auth_uid en) UPDATE (new w)) (db_wages d)
         then Inl rls_violation
         else Inr (d\<lparr>db_wages := map (\<lambda>w. if target w then new w else w) (db_wages d)\<rparr>))"

text \<open>The columns the attendance page sends. The row is checked against the INSERT
  policy, then against \<open>UNIQUE (employee_id, date)\<close>, then against the foreign key.\<close>

record attendance_values =
  av_employee_id :: uuid
  av_date :: date
  av_status :: attendance_status
  av_overtime_hours :: rat
  av_advance_taken :: rat
  av_notes :: "string option"

definition insert_attendance :: "env \<Rightarrow> db \<Rightarrow> attendance_values \<Rightarrow> pg_error + db" where
  "insert_attendance en d v =
     (let new = \<lparr>a_id = gen_random_uuid en,
                 a_employee_id = av_employee_id v,
                 a_date = av_date v,
                 a_status = av_status v,
                 a_overtime_hours = av_overtime_hours v,
                 a_advance_taken = av_advance_taken v,
                 a_notes = av_notes v,
                 a_created_at = now en,
                 a_updated_at = now en\<rparr>
      in if \<not> attendance_policy d (auth_uid en) INSERT new then Inl rls_violation
         else if list_ex (\<lambda>a. a_employee_id a = a_employee_id new \<and> a_date a = a_date new)
                         (db_attendance d)
           then Inl unique_violation
         else if \<not> list_ex (\<lambda>e. e_id e = a_employee_id new) (db_employees d)
           then Inl foreign_key_violation
         else Inr (d\<lparr>db_attendance := db_attendance d @ [new]\<rparr>))"

subsection \<open>Wages page\<close>

datatype toast = Toast_success string | Toast_error string

record wage_form =
  wf_employee_id :: uuid
  wf_period_start :: date
  wf_period_end :: date
  wf_calculation_type :: calculation_type

text \<open>The body of the \<open>forEach\<close> over the fetched attendance: the three running sums
  \<open>baseWage\<close>, \<open>overtimeAmount\<close>, \<open>advanceDeductions\<close>.\<close>

fun accumulate :: "employee \<Rightarrow> attendance \<Rightarrow> rat \<times> rat \<times> rat \<Rightarrow> rat \<times> rat \<times> rat" where
  "accumulate emp att (baseWage, overtimeAmount, advanceDeductions) =
     ((if a_status att = Present then baseWage + e_daily_wage emp
       else if a_status att = Half_day then baseWage + e_half_day_rate emp
       else baseWage),
      (if a_overtime_hours att > 0
       then overtimeAmount + a_overtime_hours att * e_overtime_rate emp
       else overtimeAmount),
      (if a_advance_taken att > 0
       then advanceDeductions + a_advance_taken att
       else advanceDeductions))"

text \<open>\<open>calculateWage\<close>: the employee is looked up in the page's list of employees
  (\<open>throw new Error("Employee not found")\<close>), the attendance of the period is fetched and
  folded, the total is formed and one row is inserted. Every failure ends in the
  \<open>catch\<close>, which shows \<open>error.message || "Error calculating wage"\<close>.\<close>

definition calculateWage :: "env \<Rightarrow> employee list \<Rightarrow> wage_form \<Rightarrow> db \<Rightarrow> toast \<times> db" where
  "calculateWage en employees formData d =
     (case find (\<lambda>e. e_id e = wf_employee_id formData) employees of
        None \<Rightarrow> (Toast_error ''Employee not found'', d)
      | Some emp \<Rightarrow>
          (let attendanceData = select_attendance en d (wf_employee_id formData)
                                  (wf_period_start formData) (wf_period_end formData);
               (baseWage, overtimeAmount, advanceDeductions) =
                  fold (accumulate emp) attendanceData (0, 0, 0);
               totalWage = baseWage + overtimeAmount - advanceDeductions
           in case insert_wages en d
                     \<lparr>wv_employee_id = wf_employee_id formData,
                      wv_period_start = wf_period_start formData,
                      wv_period_end = wf_period_end formData,
                      wv_calculation_type = wf_calculation_type formData,
                      wv_base_wage = baseWage,
                      wv_overtime_amount = overtimeAmount,
                      wv_advance_deductions = advanceDeductions,
                      wv_total_wage = totalWage\<rparr> of
                Inl insertError \<Rightarrow>
                  (Toast_error (if message insertError = [] then ''Error calculating wage''
                                else message insertError), d)
              | Inr d' \<Rightarrow> (Toast_success ''Wage calculated successfully'', d')))"

text \<open>\<open>markAsPaid\<close>: one unconditional update of \<open>paid\<close> and \<open>paid_at\<close> on the rows with
  the given id.\<close>

definition markAsPaid :: "env \<Rightarrow> uuid \<Rightarrow> db \<Rightarrow> toast \<times> db" where
  "markAsPaid en wid d =
     (case update_wages_paid en d wid True (Some (client_now en)) of
        Inl error \<Rightarrow> (Toast_error ''Error marking as paid'', d)
      | Inr d' \<Rightarrow> (Toast_success ''Marked as paid'', d'))"

subsection \<open>Attendance page\<close>

text \<open>The form with its two numeric fields already read by \<open>parseFloat\<close>.\<close>

record attendance_form =
  af_employee_id :: uuid
  af_date :: date
  af_status :: attendance_status
  af_overtime_hours :: rat
  af_advance_taken :: rat
  af_notes :: string

definition attendanceData :: "attendance_form \<Rightarrow> attendance_values" where
  "attendanceData formData =
     \<lparr>av_employee_id = af_employee_id formData,
      av_date = af_date formData,
      av_status = af_status formData,
      av_overtime_hours = af_overtime_hours formData,
      av_advance_taken = af_advance_taken formData,
      av_notes = (if af_notes formData = [] then None else Some (af_notes formData))\<rparr>"

definition handleSubmit :: "env \<Rightarrow> attendance_form \<Rightarrow> db \<Rightarrow> toast \<times> db" where
  "handleSubmit en formData d =
     (case insert_attendance en d (attendanceData formData) of
        Inl error \<Rightarrow>
          (if code error = ''23505''
           then (Toast_error ''Attendance already marked for this employee on this date'', d)
           else (Toast_error ''Error marking attendance'', d))
      | Inr d' \<Rightarrow> (Toast_success ''Attendance marked successfully'', d'))"

subsection \<open>Reports page\<close>



subsection \<open>The sums the specification names\<close>

text \<open>The three sums in the specification's words, over a list of attendance records:
  the day rate by status, hours times the overtime rate, and the advances.\<close>

definition spec_base_wage :: "employee \<Rightarrow> attendance list \<Rightarrow> rat" where
  "spec_base_wage emp A =
     (\<Sum>a\<leftarrow>A. case a_status a of Present \<Rightarrow> e_daily_wage emp
                              | Half_day \<Rightarrow> e_half_day_rate emp
                              | Absent \<Rightarrow> 0)"



text \<open>The same two sums restricted to the records with a positive entry, which is what
  the guards \<open>att.overtime_hours > 0\<close> and \<open>att.advance_taken > 0\<close> select.\<close>

definition guarded_overtime_amount :: "employee \<Rightarrow> attendance list \<Rightarrow> rat" where
  "guarded_overtime_amount emp A =
     (\<Sum>a\<leftarrow>A. if 0 < a_overtime_hours a then a_overtime_hours a * e_overtime_rate emp else 0)"

definition guarded_advance_deductions :: "attendance list \<Rightarrow> rat" where
  "guarded_advance_deductions A =
     (\<Sum>a\<leftarrow>A. if 0 < a_advance_taken a then a_advance_taken a else 0)"

text \<open>The wage row expected from a calculation for an employee over the attendance
  \<open>A\<close>, written with these sums; \<open>calculateWage_found\<close> below proves that it is the row
  \<open>calculateWage\<close> inserts.\<close>

definition expected_wage :: "env \<Rightarrow> employee \<Rightarrow> wage_form \<Rightarrow> attendance list \<Rightarrow> wage" where
  "expected_wage en emp f A =
     \<lparr>w_id = gen_random_uuid en,
      w_employee_id = wf_employee_id f,
      w_period_start = wf_period_start f,
      w_period_end = wf_period_end f,
      w_calculation_type = wf_calculation_type f,
      w_base_wage = spec_base_wage emp A,
      w_overtime_amount = guarded_overtime_amount emp A,
      w_advance_deductions = guarded_advance_deductions A,
      w_total_wage = spec_base_wage emp A + guarded_overtime_amount emp A
                       - guarded_advance_deductions A,
      w_paid = False,
      w_paid_at = None,
      w_created_at = now en,
      w_updated_at = now en\<rparr>"

subsection \<open>Concrete data\<close>

text \<open>The scenario of the specification: an employee paid 500 a day, 50 an overtime hour
  and 250 a half day, with three days of attendance: present, half day with two hours of
  overtime, absent with an advance of 100. The acting principal is an administrator.\<close>

definition scenario_employee :: employee where
  "scenario_employee =
     \<lparr>e_id = ''e1'', e_user_id = None, e_full_name = ''Asha'', e_email = None,
      e_phone = None, e_daily_wage = 500, e_overtime_rate = 50, e_half_day_rate = 250,
      e_status = Active\<rparr>"

definition scenario_day :: "uuid \<Rightarrow> nat \<Rightarrow> attendance_status \<Rightarrow> rat \<Rightarrow> rat \<Rightarrow> attendance" where
  "scenario_day i day st ot adv =
     \<lparr>a_id = i, a_employee_id = ''e1'', a_date = (2025, 1, day), a_status = st,
      a_overtime_hours = ot, a_advance_taken = adv, a_notes = None,
      a_created_at = 10, a_updated_at = 10\<rparr>"

definition scenario_attendance :: "attendance list" where
  "scenario_attendance =
     [scenario_day ''a1'' 1 Present 0 0,
      scenario_day ''a2'' 2 Half_day 2 0,
      scenario_day ''a3'' 3 Absent 0 100]"

definition scenario_db :: db where
  "scenario_db =
     \<lparr>db_user_roles = [\<lparr>ur_id = ''r1'', ur_user_id = ''boss'', ur_role = Admin\<rparr>],
      db_employees = [scenario_employee],
      db_attendance = scenario_attendance,
      db_wages = []\<rparr>"

definition scenario_env :: env where
  "scenario_env =
     \<lparr>auth_uid = Some ''boss'', now = 1000, gen_random_uuid = ''w1'', client_now = 1001\<rparr>"

definition scenario_form :: wage_form where
  "scenario_form =
     \<lparr>wf_employee_id = ''e1'', wf_period_start = (2025, 1, 1), wf_period_end = (2025, 1, 7),
      wf_calculation_type = Weekly\<rparr>"





text \<open>One unpaid wage row, and a later request by the same administrator.\<close>

definition unpaid_wage :: wage where
  "unpaid_wage =
     \<lparr>w_id = ''w0'', w_employee_id = ''e1'', w_period_start = (2025, 1, 1),
      w_period_end = (2025, 1, 7), w_calculation_type = Weekly, w_base_wage = 750,
      w_overtime_amount = 100, w_advance_deductions = 100, w_total_wage = 750,
      w_paid = False, w_paid_at = None, w_created_at = 500, w_updated_at = 500\<rparr>"

definition unpaid_db :: db where
  "unpaid_db = scenario_db\<lparr>db_wages := [unpaid_wage]\<rparr>"

definition later_env :: env where
  "later_env = scenario_env\<lparr>now := 2000, client_now := 2002\<rparr>"

text \<open>A database with two employees: the employee of the scenario, linked to the
  principal \<open>asha\<close>, who holds no role, and a second one linked to nobody; each has one
  attendance row and one wage row.\<close>

definition asha :: employee where
  "asha = scenario_employee\<lparr>e_user_id := Some ''asha''\<rparr>"

definition ravi :: employee where
  "ravi = scenario_employee\<lparr>e_id := ''e2'', e_full_name := ''Ravi''\<rparr>"

definition owned_db :: db where
  "owned_db =
     \<lparr>db_user_roles = [\<lparr>ur_id = ''r1'', ur_user_id = ''boss'', ur_role = Admin\<rparr>,
                       \<lparr>ur_id = ''r2'', ur_user_id = ''asha'', ur_role = Employee\<rparr>],
      db_employees = [asha, ravi],
      db_attendance = [scenario_day ''a1'' 1 Present 0 0,
                       (scenario_day ''a9'' 1 Present 0 0)\<lparr>a_employee_id := ''e2''\<rparr>],
      db_wages = [unpaid_wage, unpaid_wage\<lparr>w_id := ''w9'', w_employee_id := ''e2''\<rparr>]\<rparr>"



text \<open>An attendance form for a day the scenario has no record of.\<close>

definition attendance_form0 :: attendance_form where
  "attendance_form0 =
     \<lparr>af_employee_id = ''e1'', af_date = (2025, 1, 8), af_status = Present,
      af_overtime_hours = 1, af_advance_taken = 0, af_notes = []\<rparr>"


text \<open>The loop over the fetched attendance, started from any three running sums, adds the
  status sum and the two guarded sums.\<close>

lemma fold_accumulate:
  "fold (accumulate emp) A (b, ot, adv) =
     (b + spec_base_wage emp A, ot + guarded_overtime_amount emp A,
      adv + guarded_advance_deductions A)"
proof (induction A arbitrary: b ot adv)
  case Nil
  show ?case
    by (simp add: spec_base_wage_def guarded_overtime_amount_def guarded_advance_deductions_def)
next
  case (Cons a A)
  show ?case
    by (cases "a_status a")
       (simp_all add: Cons.IH spec_base_wage_def guarded_overtime_amount_def
          guarded_advance_deductions_def)
qed



lemma calculateWage_not_found:
  "find (\<lambda>e. e_id e = wf_employee_id f) employees = None \<Longrightarrow>
   calculateWage en employees f d = (Toast_error ''Employee not found'', d)"
  by (simp add: calculateWage_def)

text \<open>What \<open>calculateWage\<close> does once the employee is found in the page's list: the insert
  is refused for a principal without the administrator role, refused when the employee
  row is gone from the table, and otherwise appends the expected row.\<close>

lemma calculateWage_found:
  assumes "find (\<lambda>e. e_id e = wf_employee_id f) employees = Some emp"
  shows "calculateWage en employees f d =
     (if \<not> has_role (db_user_roles d) (auth_uid en) Admin
      then (Toast_error (message rls_violation), d)
      else if \<not> list_ex (\<lambda>e. e_id e = wf_employee_id f) (db_employees d)
      then (Toast_error (message foreign_key_violation), d)
      else (Toast_success ''Wage calculated successfully'',
            d\<lparr>db_wages := db_wages d @
                 [expected_wage en emp f
                    (select_attendance en d (wf_employee_id f) (wf_period_start f)
                       (wf_period_end f))]\<rparr>))"
  using assms
  by (simp add: calculateWage_def fold_accumulate insert_wages_def wages_policy_def
        expected_wage_def rls_violation_def foreign_key_violation_def Let_def)

lemma calculateWage_success:
  assumes "calculateWage en employees f d = (Toast_success m, d')"
  shows "\<exists>emp. find (\<lambda>e. e_id e = wf_employee_id f) employees = Some emp \<and>
           d' = d\<lparr>db_wages := db_wages d @
                 [expected_wage en emp f
                    (select_attendance en d (wf_employee_id f) (wf_period_start f)
                       (wf_period_end f))]\<rparr>"
proof (cases "find (\<lambda>e. e_id e = wf_employee_id f) employees")
  case None
  with assms show ?thesis by (simp add: calculateWage_not_found)
next
  case (Some emp)
  with assms show ?thesis
    by (simp add: calculateWage_found split: if_splits)
qed

text \<open>Evaluation of the scenario.\<close>

lemma scenario_admin: "has_role (db_user_roles scenario_db) (auth_uid scenario_env) Admin"
  by (simp add: scenario_db_def scenario_env_def has_role_def sql_eq_def)

lemma scenario_find:
  "find (\<lambda>e. e_id e = wf_employee_id scenario_form) [scenario_employee] = Some scenario_employee"
  by (simp add: scenario_form_def scenario_employee_def)

lemma scenario_select:
  "select_attendance scenario_env scenario_db ''e1'' (2025, 1, 1) (2025, 1, 7) = scenario_attendance"
  by (simp add: select_attendance_def scenario_db_def scenario_env_def scenario_attendance_def
       scenario_day_def attendance_policy_def has_role_def sql_eq_def)

lemma scenario_sums:
  "spec_base_wage scenario_employee scenario_attendance = 750"
  "guarded_overtime_amount scenario_employee scenario_attendance = 100"
  "guarded_advance_deductions scenario_attendance = 100"
  by (simp_all add: spec_base_wage_def guarded_overtime_amount_def guarded_advance_deductions_def
       scenario_attendance_def scenario_day_def scenario_employee_def)

lemma scenario_result:
  "calculateWage scenario_env [scenario_employee] scenario_form scenario_db =
     (Toast_success ''Wage calculated successfully'',
      scenario_db\<lparr>db_wages :=
        [\<lparr>w_id = ''w1'', w_employee_id = ''e1'', w_period_start = (2025, 1, 1),
          w_period_end = (2025, 1, 7), w_calculation_type = Weekly, w_base_wage = 750,
          w_overtime_amount = 100, w_advance_deductions = 100, w_total_wage = 750,
          w_paid = False, w_paid_at = None, w_created_at = 1000, w_updated_at = 1000\<rparr>]\<rparr>)"
proof -
  have fk: "list_ex (\<lambda>e. e_id e = wf_employee_id scenario_form) (db_employees scenario_db)"
    by (simp add: scenario_form_def scenario_db_def scenario_employee_def)
  have sel: "select_attendance scenario_env scenario_db (wf_employee_id scenario_form)
       (wf_period_start scenario_form) (wf_period_end scenario_form) = scenario_attendance"
    using scenario_select by (simp add: scenario_form_def)
  show ?thesis
    unfolding calculateWage_found [OF scenario_find]
    using scenario_admin fk
    by (simp add: sel expected_wage_def scenario_sums)
       (simp add: scenario_form_def scenario_env_def scenario_db_def)
qed











lemma expected_wage_label:
  "expected_wage en emp (f\<lparr>wf_calculation_type := t\<rparr>) A =
     (expected_wage en emp f A)\<lparr>w_calculation_type := t\<rparr>"
  by (simp add: expected_wage_def)








text \<open>Claim C8. Changing only the calculation type of the form changes neither whether
  \<open>calculateWage\<close> succeeds nor what it reports, and when the call succeeds the second run
  appends the row of the first run with the label replaced: all four amounts, and every
  other column, are the same.\<close>

theorem calculation_type_label:
  "fst (calculateWage en employees (f\<lparr>wf_calculation_type := t\<rparr>) d) =
     fst (calculateWage en employees f d) \<and>
   (calculateWage en employees f d = (Toast_success m, d') \<longrightarrow>
      (\<exists>w. db_wages d' = db_wages d @ [w] \<and>
         w_calculation_type w = wf_calculation_type f \<and>
         calculateWage en employees (f\<lparr>wf_calculation_type := t\<rparr>) d =
           (Toast_success m, d'\<lparr>db_wages := db_wages d @ [w\<lparr>w_calculation_type := t\<rparr>]\<rparr>)))"
proof (intro conjI impI)
  show "fst (calculateWage en employees (f\<lparr>wf_calculation_type := t\<rparr>) d) =
     fst (calculateWage en employees f d)"
  proof (cases "find (\<lambda>e. e_id e = wf_employee_id f) employees")
    case None
    then show ?thesis
      by (simp add: calculateWage_not_found)
  next
    case (Some emp)
    then show ?thesis
      by (simp add: calculateWage_found)
  qed
next
  assume run: "calculateWage en employees f d = (Toast_success m, d')"
  let ?A = "select_attendance en d (wf_employee_id f) (wf_period_start f) (wf_period_end f)"
  from calculateWage_success [OF run] obtain emp where
    emp: "find (\<lambda>e. e_id e = wf_employee_id f) employees = Some emp" and
    d': "d' = d\<lparr>db_wages := db_wages d @ [expected_wage en emp f ?A]\<rparr>"
    by blast
  let ?w = "expected_wage en emp f ?A"
  have rows: "db_wages d' = db_wages d @ [?w]"
    by (simp add: d')
  have label: "w_calculation_type ?w = wf_calculation_type f"
    by (simp add: expected_wage_def)
  from run emp have ok: "has_role (db_user_roles d) (auth_uid en) Admin"
    "list_ex (\<lambda>e. e_id e = wf_employee_id f) (db_employees d)"
    and m: "m = ''Wage calculated successfully''"
    by (auto simp: calculateWage_found split: if_splits)
  have other: "calculateWage en employees (f\<lparr>wf_calculation_type := t\<rparr>) d =
      (Toast_success m, d'\<lparr>db_wages := db_wages d @ [?w\<lparr>w_calculation_type := t\<rparr>]\<rparr>)"
    using emp ok by (simp add: calculateWage_found expected_wage_label d' m)
  from rows label other
  show "\<exists>w. db_wages d' = db_wages d @ [w] \<and>
         w_calculation_type w = wf_calculation_type f \<and>
         calculateWage en employees (f\<lparr>wf_calculation_type := t\<rparr>) d =
           (Toast_success m, d'\<lparr>db_wages := db_wages d @ [w\<lparr>w_calculation_type := t\<rparr>]\<rparr>)"
    by blast
qed


text \<open>The C8 theorem at the scenario, run as weekly and as monthly.\<close>

theorem calculation_type_label_witness:
  "fst (calculateWage scenario_env [scenario_employee]
          (scenario_form\<lparr>wf_calculation_type := Monthly\<rparr>) scenario_db) =
     Toast_success ''Wage calculated successfully'' \<and>
   (\<exists>w. db_wages (snd (calculateWage scenario_env [scenario_employee] scenario_form
                          scenario_db)) = db_wages scenario_db @ [w] \<and>
        w_calculation_type w = Weekly \<and>
        db_wages (snd (calculateWage scenario_env [scenario_employee]
                         (scenario_form\<lparr>wf_calculation_type := Monthly\<rparr>) scenario_db)) =
          db_wages scenario_db @ [w\<lparr>w_calculation_type := Monthly\<rparr>])"
proof -
  let ?run = "calculateWage scenario_env [scenario_employee] scenario_form scenario_db"
  let ?run' = "calculateWage scenario_env [scenario_employee]
                 (scenario_form\<lparr>wf_calculation_type := Monthly\<rparr>) scenario_db"
  have t: "fst ?run = Toast_success ''Wage calculated successfully''"
    by (simp add: scenario_result)
  then have run: "?run = (Toast_success ''Wage calculated successfully'', snd ?run)"
    by (metis prod.collapse)
  note inst = calculation_type_label [where en = scenario_env and
      employees = "[scenario_employee]" and f = scenario_form and t = Monthly and
      d = scenario_db and m = "''Wage calculated successfully''" and d' = "snd ?run"]
  from inst t have t': "fst ?run' = Toast_success ''Wage calculated successfully''"
    by simp
  from inst run obtain w where
    rows: "db_wages (snd ?run) = db_wages scenario_db @ [w]" and
    label: "w_calculation_type w = wf_calculation_type scenario_form" and
    other: "?run' = (Toast_success ''Wage calculated successfully'',
       (snd ?run)\<lparr>db_wages := db_wages scenario_db @ [w\<lparr>w_calculation_type := Monthly\<rparr>]\<rparr>)"
    by blast
  have "db_wages (snd ?run') = db_wages scenario_db @ [w\<lparr>w_calculation_type := Monthly\<rparr>]"
    unfolding other by simp
  moreover have "w_calculation_type w = Weekly"
    using label by (simp add: scenario_form_def)
  ultimately show ?thesis
    using t' rows by blast
qed













text \<open>The update rewrites the rows with the given id when the principal is an administrator
  and no row otherwise; it never fails, since the UPDATE policy does not look at the row.\<close>

lemma update_wages_paid_eq:
  "update_wages_paid en d wid p pa =
     Inr (d\<lparr>db_wages :=
            map (\<lambda>w. if w_id w = wid \<and> has_role (db_user_roles d) (auth_uid en) Admin
                      then w\<lparr>w_paid := p, w_paid_at := pa, w_updated_at := now en\<rparr>
                      else w)
                (db_wages d)\<rparr>)"
proof (cases "has_role (db_user_roles d) (auth_uid en) Admin")
  case True
  then show ?thesis
    by (simp add: update_wages_paid_def wages_policy_def update_updated_at_column_def
          list_ex_iff)
next
  case False
  then show ?thesis
    by (simp add: update_wages_paid_def wages_policy_def update_updated_at_column_def
          list_ex_iff)
qed

lemma markAsPaid_eq:
  "markAsPaid en wid d =
     (Toast_success ''Marked as paid'',
      d\<lparr>db_wages :=
          map (\<lambda>w. if w_id w = wid \<and> has_role (db_user_roles d) (auth_uid en) Admin
                    then w\<lparr>w_paid := True, w_paid_at := Some (client_now en),
                           w_updated_at := now en\<rparr>
                    else w)
              (db_wages d)\<rparr>)"
  by (simp add: markAsPaid_def update_wages_paid_eq)

lemma markAsPaid_roles: "db_user_roles (snd (markAsPaid en wid d)) = db_user_roles d"
  by (simp add: markAsPaid_eq)

text \<open>Claim C9, as the code has it. \<open>markAsPaid\<close> always reports success. Run by an
  administrator it rewrites every wage row with the given id, setting \<open>paid\<close> to true,
  \<open>paid_at\<close> to the browser's time and, through the trigger, \<open>updated_at\<close> to the server's
  time; every other column of these rows, every other wage row and the three other tables
  are left as they were. Run by a principal without the administrator role it changes
  nothing.\<close>

theorem mark_paid_frame:
  "fst (markAsPaid en wid d) = Toast_success ''Marked as paid'' \<and>
   snd (markAsPaid en wid d) =
     d\<lparr>db_wages :=
         map (\<lambda>w. if w_id w = wid \<and> has_role (db_user_roles d) (auth_uid en) Admin
                   then w\<lparr>w_paid := True, w_paid_at := Some (client_now en),
                          w_updated_at := now en\<rparr>
                   else w)
             (db_wages d)\<rparr>"
  by (simp add: markAsPaid_eq)

lemma unpaid_admin: "has_role (db_user_roles unpaid_db) (auth_uid scenario_env) Admin"
  using scenario_admin by (simp add: unpaid_db_def)

lemma unpaid_admin_later: "has_role (db_user_roles unpaid_db) (auth_uid later_env) Admin"
  using scenario_admin by (simp add: unpaid_db_def later_env_def)

lemma unpaid_first:
  "db_wages (snd (markAsPaid scenario_env ''w0'' unpaid_db)) =
     [unpaid_wage\<lparr>w_paid := True, w_paid_at := Some 1001, w_updated_at := 1000\<rparr>]"
proof -
  have "db_wages unpaid_db = [unpaid_wage]" "w_id unpaid_wage = ''w0''"
    "client_now scenario_env = 1001" "now scenario_env = 1000"
    by (simp_all add: unpaid_db_def unpaid_wage_def scenario_env_def)
  with unpaid_admin show ?thesis
    by (simp add: markAsPaid_eq)
qed

text \<open>The C9 theorem at the unpaid wage row of the scenario, marked by the administrator.\<close>

theorem mark_paid_frame_witness:
  "fst (markAsPaid scenario_env ''w0'' unpaid_db) = Toast_success ''Marked as paid'' \<and>
   db_wages (snd (markAsPaid scenario_env ''w0'' unpaid_db)) =
     [\<lparr>w_id = ''w0'', w_employee_id = ''e1'', w_period_start = (2025, 1, 1),
       w_period_end = (2025, 1, 7), w_calculation_type = Weekly, w_base_wage = 750,
       w_overtime_amount = 100, w_advance_deductions = 100, w_total_wage = 750,
       w_paid = True, w_paid_at = Some 1001, w_created_at = 500, w_updated_at = 1000\<rparr>]"
proof -
  have facts: "db_wages unpaid_db = [unpaid_wage]" "w_id unpaid_wage = ''w0''"
    "client_now scenario_env = 1001" "now scenario_env = 1000"
    by (simp_all add: unpaid_db_def unpaid_wage_def scenario_env_def)
  from mark_paid_frame [of scenario_env "''w0''" unpaid_db] unpaid_admin facts
  have "fst (markAsPaid scenario_env ''w0'' unpaid_db) = Toast_success ''Marked as paid''"
    and "db_wages (snd (markAsPaid scenario_env ''w0'' unpaid_db)) =
      [unpaid_wage\<lparr>w_paid := True, w_paid_at := Some 1001, w_updated_at := 1000\<rparr>]"
    by simp_all
  then show ?thesis
    by (simp add: unpaid_wage_def)
qed

text \<open>Claim C9 as stated fails on \<open>updated_at\<close>: the row after \<open>markAsPaid\<close> is not the old
  row with only \<open>paid\<close> and \<open>paid_at\<close> replaced, since the trigger has moved \<open>updated_at\<close>
  from 500 to the server time 1000.\<close>

theorem mark_paid_frame_counterexample:
  "db_wages unpaid_db = [unpaid_wage] \<and>
   w_updated_at unpaid_wage = 500 \<and>
   w_updated_at (hd (db_wages (snd (markAsPaid scenario_env ''w0'' unpaid_db)))) = 1000 \<and>
   hd (db_wages (snd (markAsPaid scenario_env ''w0'' unpaid_db))) \<noteq>
     unpaid_wage\<lparr>w_paid := True, w_paid_at := Some (client_now scenario_env)\<rparr>"
proof -
  have "db_wages unpaid_db = [unpaid_wage]"
    by (simp add: unpaid_db_def)
  moreover have "w_updated_at unpaid_wage = 500"
    by (simp add: unpaid_wage_def)
  moreover have u: "w_updated_at (hd (db_wages (snd (markAsPaid scenario_env ''w0'' unpaid_db))))
      = 1000"
    by (simp add: unpaid_first)
  moreover have "hd (db_wages (snd (markAsPaid scenario_env ''w0'' unpaid_db))) \<noteq>
     unpaid_wage\<lparr>w_paid := True, w_paid_at := Some (client_now scenario_env)\<rparr>"
  proof
    assume "hd (db_wages (snd (markAsPaid scenario_env ''w0'' unpaid_db))) =
      unpaid_wage\<lparr>w_paid := True, w_paid_at := Some (client_now scenario_env)\<rparr>"
    then have "w_updated_at (hd (db_wages (snd (markAsPaid scenario_env ''w0'' unpaid_db)))) =
      w_updated_at unpaid_wage"
      by simp
    with u show False
      by (simp add: unpaid_wage_def)
  qed
  ultimately show ?thesis
    by blast
qed

text \<open>Claim C3, as the code has it. Two calls of \<open>markAsPaid\<close> on the same id by
  administrators both report success and both leave the rows with that id paid; the first
  call stores its own time in \<open>paid_at\<close> and the second call overwrites it with the time
  of the second call.\<close>

theorem mark_paid_twice:
  assumes "has_role (db_user_roles d) (auth_uid en1) Admin"
    and "has_role (db_user_roles d) (auth_uid en2) Admin"
  shows "fst (markAsPaid en1 wid d) = Toast_success ''Marked as paid'' \<and>
     fst (markAsPaid en2 wid (snd (markAsPaid en1 wid d))) = Toast_success ''Marked as paid'' \<and>
     db_wages (snd (markAsPaid en1 wid d)) =
       map (\<lambda>w. if w_id w = wid
                 then w\<lparr>w_paid := True, w_paid_at := Some (client_now en1),
                        w_updated_at := now en1\<rparr>
                 else w) (db_wages d) \<and>
     db_wages (snd (markAsPaid en2 wid (snd (markAsPaid en1 wid d)))) =
       map (\<lambda>w. if w_id w = wid
                 then w\<lparr>w_paid := True, w_paid_at := Some (client_now en2),
                        w_updated_at := now en2\<rparr>
                 else w) (db_wages d)"
proof -
  let ?d1 = "snd (markAsPaid en1 wid d)"
  have first: "db_wages ?d1 =
       map (\<lambda>w. if w_id w = wid
                 then w\<lparr>w_paid := True, w_paid_at := Some (client_now en1),
                        w_updated_at := now en1\<rparr>
                 else w) (db_wages d)"
    using assms(1) by (simp add: markAsPaid_eq)
  have adm: "has_role (db_user_roles ?d1) (auth_uid en2) Admin"
    using assms(2) by (simp add: markAsPaid_roles)
  have "db_wages (snd (markAsPaid en2 wid ?d1)) =
       map (\<lambda>w. if w_id w = wid
                 then w\<lparr>w_paid := True, w_paid_at := Some (client_now en2),
                        w_updated_at := now en2\<rparr>
                 else w) (db_wages ?d1)"
    using adm by (simp add: markAsPaid_eq [of en2 wid ?d1])
  also have "\<dots> =
       map (\<lambda>w. if w_id w = wid
                 then w\<lparr>w_paid := True, w_paid_at := Some (client_now en2),
                        w_updated_at := now en2\<rparr>
                 else w) (db_wages d)"
    unfolding first by (simp add: comp_def if_distrib cong: if_cong)
  finally have second: "db_wages (snd (markAsPaid en2 wid ?d1)) =
       map (\<lambda>w. if w_id w = wid
                 then w\<lparr>w_paid := True, w_paid_at := Some (client_now en2),
                        w_updated_at := now en2\<rparr>
                 else w) (db_wages d)" .
  have "fst (markAsPaid en1 wid d) = Toast_success ''Marked as paid''"
    "fst (markAsPaid en2 wid ?d1) = Toast_success ''Marked as paid''"
    by (simp_all add: markAsPaid_eq)
  with first second show ?thesis
    by blast
qed

text \<open>The C3 theorem at the unpaid wage row, marked at 1001 and again at 2002.\<close>

theorem mark_paid_twice_witness:
  "has_role (db_user_roles unpaid_db) (auth_uid scenario_env) Admin \<and>
   has_role (db_user_roles unpaid_db) (auth_uid later_env) Admin \<and>
   fst (markAsPaid later_env ''w0'' (snd (markAsPaid scenario_env ''w0'' unpaid_db))) =
     Toast_success ''Marked as paid'' \<and>
   db_wages (snd (markAsPaid later_env ''w0'' (snd (markAsPaid scenario_env ''w0'' unpaid_db)))) =
     [unpaid_wage\<lparr>w_paid := True, w_paid_at := Some 2002, w_updated_at := 2000\<rparr>]"
proof -
  have facts: "db_wages unpaid_db = [unpaid_wage]" "w_id unpaid_wage = ''w0''"
    "client_now later_env = 2002" "now later_env = 2000"
    by (simp_all add: unpaid_db_def unpaid_wage_def later_env_def scenario_env_def)
  from mark_paid_twice [OF unpaid_admin unpaid_admin_later, of "''w0''"] facts
  have "fst (markAsPaid later_env ''w0'' (snd (markAsPaid scenario_env ''w0'' unpaid_db))) =
     Toast_success ''Marked as paid''"
    and "db_wages (snd (markAsPaid later_env ''w0''
        (snd (markAsPaid scenario_env ''w0'' unpaid_db)))) =
     [unpaid_wage\<lparr>w_paid := True, w_paid_at := Some 2002, w_updated_at := 2000\<rparr>]"
    by simp_all
  with unpaid_admin unpaid_admin_later show ?thesis
    by blast
qed

text \<open>Claim C3 as stated fails: \<open>paid_at\<close> is 1001 after the first call and 2002 after the
  second, so the second call does not leave it unchanged.\<close>

theorem mark_paid_twice_counterexample:
  "w_paid_at (hd (db_wages (snd (markAsPaid scenario_env ''w0'' unpaid_db)))) = Some 1001 \<and>
   w_paid_at (hd (db_wages (snd (markAsPaid later_env ''w0''
       (snd (markAsPaid scenario_env ''w0'' unpaid_db)))))) = Some 2002"
proof -
  let ?d1 = "snd (markAsPaid scenario_env ''w0'' unpaid_db)"
  have adm: "has_role (db_user_roles ?d1) (auth_uid later_env) Admin"
    using unpaid_admin_later by (simp add: markAsPaid_roles)
  have "client_now later_env = 2002" "w_id unpaid_wage = ''w0''"
    by (simp_all add: later_env_def scenario_env_def unpaid_wage_def)
  with adm have "w_paid_at (hd (db_wages (snd (markAsPaid later_env ''w0'' ?d1)))) = Some 2002"
    by (simp add: markAsPaid_eq [of later_env] unpaid_first)
  then show ?thesis
    by (simp add: unpaid_first)
qed


text \<open>An administrator's insert for a pair (employee, date) that a stored row already has is
  stopped by the unique constraint.\<close>

lemma insert_attendance_duplicate:
  assumes "has_role (db_user_roles d) (auth_uid en) Admin"
    and "a \<in> set (db_attendance d)"
    and "a_employee_id a = av_employee_id v" and "a_date a = av_date v"
  shows "insert_attendance en d v = Inl unique_violation"
proof -
  have "list_ex (\<lambda>a. a_employee_id a = av_employee_id v \<and> a_date a = av_date v)
          (db_attendance d)"
    using assms(2-4) by (auto simp: list_ex_iff)
  then show ?thesis
    using assms(1) by (simp add: insert_attendance_def attendance_policy_def)
qed

text \<open>Claim C5. When the attendance table already holds a row for the employee and the date
  of the form, the insert an administrator submits fails with the unique violation (code
  23505), \<open>handleSubmit\<close> reports that attendance is already marked for this employee on
  this date and not the generic error, and the table is left as it was, the first row
  included.\<close>

theorem duplicate_attendance_rejected:
  assumes "has_role (db_user_roles d) (auth_uid en) Admin"
    and "a \<in> set (db_attendance d)"
    and "a_employee_id a = af_employee_id f" and "a_date a = af_date f"
  shows "insert_attendance en d (attendanceData f) = Inl unique_violation \<and>
     code unique_violation = ''23505'' \<and>
     handleSubmit en f d =
       (Toast_error ''Attendance already marked for this employee on this date'', d) \<and>
     fst (handleSubmit en f d) \<noteq> Toast_error ''Error marking attendance'' \<and>
     a \<in> set (db_attendance (snd (handleSubmit en f d)))"
proof -
  have ins: "insert_attendance en d (attendanceData f) = Inl unique_violation"
    using assms by (intro insert_attendance_duplicate [of d en a]) (simp_all add: attendanceData_def)
  have c: "code unique_violation = ''23505''"
    by (simp add: unique_violation_def)
  have run: "handleSubmit en f d =
       (Toast_error ''Attendance already marked for this employee on this date'', d)"
    by (simp add: handleSubmit_def ins c)
  show ?thesis
    using ins c assms(2) by (simp add: run)
qed

lemma first_insert:
  "handleSubmit scenario_env attendance_form0 scenario_db =
     (Toast_success ''Attendance marked successfully'',
      scenario_db\<lparr>db_attendance := scenario_attendance @
        [\<lparr>a_id = ''w1'', a_employee_id = ''e1'', a_date = (2025, 1, 8), a_status = Present,
          a_overtime_hours = 1, a_advance_taken = 0, a_notes = None, a_created_at = 1000,
          a_updated_at = 1000\<rparr>]\<rparr>)"
  by (simp add: handleSubmit_def insert_attendance_def attendanceData_def attendance_policy_def
       has_role_def sql_eq_def scenario_db_def scenario_env_def attendance_form0_def
       scenario_attendance_def scenario_day_def scenario_employee_def)

text \<open>The C5 theorem run as two submissions: the first one for 8 January succeeds, the
  second one for the same employee and day, with another status, is refused and the stored
  row keeps the first status.\<close>

theorem duplicate_attendance_rejected_witness:
  "fst (handleSubmit scenario_env attendance_form0 scenario_db) =
     Toast_success ''Attendance marked successfully'' \<and>
   handleSubmit later_env (attendance_form0\<lparr>af_status := Absent, af_overtime_hours := 0\<rparr>)
       (snd (handleSubmit scenario_env attendance_form0 scenario_db)) =
     (Toast_error ''Attendance already marked for this employee on this date'',
      snd (handleSubmit scenario_env attendance_form0 scenario_db)) \<and>
   a_status (last (db_attendance
       (snd (handleSubmit later_env (attendance_form0\<lparr>af_status := Absent, af_overtime_hours := 0\<rparr>)
          (snd (handleSubmit scenario_env attendance_form0 scenario_db)))))) = Present"
proof -
  let ?d1 = "snd (handleSubmit scenario_env attendance_form0 scenario_db)"
  let ?a = "\<lparr>a_id = ''w1'', a_employee_id = ''e1'', a_date = (2025, 1, 8), a_status = Present,
          a_overtime_hours = 1, a_advance_taken = 0, a_notes = None, a_created_at = 1000,
          a_updated_at = 1000\<rparr>"
  let ?f2 = "attendance_form0\<lparr>af_status := Absent, af_overtime_hours := 0\<rparr>"
  have d1: "?d1 = scenario_db\<lparr>db_attendance := scenario_attendance @ [?a]\<rparr>"
    by (simp add: first_insert)
  have t: "fst (handleSubmit scenario_env attendance_form0 scenario_db) =
     Toast_success ''Attendance marked successfully''"
    by (simp add: first_insert)
  have adm: "has_role (db_user_roles ?d1) (auth_uid later_env) Admin"
    unfolding d1 using scenario_admin by (simp add: later_env_def)
  have mem: "?a \<in> set (db_attendance ?d1)"
    unfolding d1 by simp
  have same: "a_employee_id ?a = af_employee_id ?f2" "a_date ?a = af_date ?f2"
    by (simp_all add: attendance_form0_def)
  have l: "last (db_attendance ?d1) = ?a"
    unfolding d1 by simp
  from duplicate_attendance_rejected [OF adm mem same]
  have run: "handleSubmit later_env ?f2 ?d1 =
       (Toast_error ''Attendance already marked for this employee on this date'', ?d1)"
    by blast
  have "a_status (last (db_attendance (snd (handleSubmit later_env ?f2 ?d1)))) = Present"
    unfolding run by (simp add: l)
  with t run show ?thesis
    by blast
qed








text \<open>The comparison of \<open>auth.uid()\<close> with \<open>employees.user_id\<close> is the ownership link: it holds
  only when both are set and equal.\<close>

lemma sql_eq_owns: "sql_eq uid (e_user_id e) = owns uid e"
  by (cases uid; cases "e_user_id e") (auto simp: sql_eq_def owns_def)

lemma sql_eq_owns': "sql_eq (e_user_id e) uid = owns uid e"
  by (cases uid; cases "e_user_id e") (auto simp: sql_eq_def owns_def)

lemma employees_policy_iff:
  "employees_policy d uid cmd e =
     (has_role (db_user_roles d) uid Admin \<or> cmd = SELECT \<and> owns uid e)"
  by (cases cmd) (simp_all add: employees_policy_def sql_eq_owns)

lemma attendance_policy_iff:
  "attendance_policy d uid cmd a =
     (has_role (db_user_roles d) uid Admin \<or>
      cmd = SELECT \<and> (\<exists>e\<in>set (db_employees d). e_id e = a_employee_id a \<and> owns uid e))"
  by (cases cmd) (simp_all add: attendance_policy_def sql_eq_owns' list_ex_iff)

lemma wages_policy_iff:
  "wages_policy d uid cmd w =
     (has_role (db_user_roles d) uid Admin \<or>
      cmd = SELECT \<and> (\<exists>e\<in>set (db_employees d). e_id e = w_employee_id w \<and> owns uid e))"
  by (cases cmd) (simp_all add: wages_policy_def sql_eq_owns' list_ex_iff)

text \<open>Claim C4. A principal holding the administrator role is allowed every command on every
  row of the three tables. A principal without it is allowed exactly the SELECT of the
  employee rows it owns and of the attendance and wage rows whose employee it owns, and
  no INSERT, UPDATE or DELETE. A principal without the role that owns no employee row is
  allowed nothing on any stored employee row nor on any attendance or wage row.\<close>

theorem row_policies:
  "(has_role (db_user_roles d) uid Admin \<longrightarrow> allowed d uid cmd r) \<and>
   (\<not> has_role (db_user_roles d) uid Admin \<longrightarrow>
      (allowed d uid cmd (Employee_row e) \<longleftrightarrow> cmd = SELECT \<and> owns uid e) \<and>
      (allowed d uid cmd (Attendance_row a) \<longleftrightarrow>
         cmd = SELECT \<and> (\<exists>e\<in>set (db_employees d). e_id e = a_employee_id a \<and> owns uid e)) \<and>
      (allowed d uid cmd (Wage_row w) \<longleftrightarrow>
         cmd = SELECT \<and> (\<exists>e\<in>set (db_employees d). e_id e = w_employee_id w \<and> owns uid e))) \<and>
   (\<not> has_role (db_user_roles d) uid Admin \<and> (\<forall>e\<in>set (db_employees d). \<not> owns uid e) \<longrightarrow>
      (e \<in> set (db_employees d) \<longrightarrow> \<not> allowed d uid cmd (Employee_row e)) \<and>
      \<not> allowed d uid cmd (Attendance_row a) \<and>
      \<not> allowed d uid cmd (Wage_row w))"
proof (intro conjI impI)
  assume "has_role (db_user_roles d) uid Admin"
  then show "allowed d uid cmd r"
    by (cases r) (simp_all add: employees_policy_iff attendance_policy_iff wages_policy_iff)
next
  assume "\<not> has_role (db_user_roles d) uid Admin"
  then show "allowed d uid cmd (Employee_row e) \<longleftrightarrow> cmd = SELECT \<and> owns uid e"
    and "allowed d uid cmd (Attendance_row a) \<longleftrightarrow>
         cmd = SELECT \<and> (\<exists>e\<in>set (db_employees d). e_id e = a_employee_id a \<and> owns uid e)"
    and "allowed d uid cmd (Wage_row w) \<longleftrightarrow>
         cmd = SELECT \<and> (\<exists>e\<in>set (db_employees d). e_id e = w_employee_id w \<and> owns uid e)"
    by (simp_all add: employees_policy_iff attendance_policy_iff wages_policy_iff)
next
  assume none: "\<not> has_role (db_user_roles d) uid Admin \<and>
    (\<forall>e\<in>set (db_employees d). \<not> owns uid e)"
  then show "\<not> allowed d uid cmd (Attendance_row a)"
    and "\<not> allowed d uid cmd (Wage_row w)"
    by (simp_all add: attendance_policy_iff wages_policy_iff)
  assume "e \<in> set (db_employees d)"
  with none show "\<not> allowed d uid cmd (Employee_row e)"
    by (simp add: employees_policy_iff)
qed

lemma owned_db_roles:
  "has_role (db_user_roles owned_db) (Some ''boss'') Admin"
  "\<not> has_role (db_user_roles owned_db) (Some ''asha'') Admin"
  "\<not> has_role (db_user_roles owned_db) (Some ''guest'') Admin"
  "\<not> has_role (db_user_roles owned_db) None Admin"
  by (simp_all add: owned_db_def has_role_def sql_eq_def)

lemma owned_db_owns:
  "owns (Some ''asha'') asha" "\<not> owns (Some ''asha'') ravi"
  "\<not> owns (Some ''guest'') asha" "\<not> owns (Some ''guest'') ravi"
  "\<not> owns None asha" "\<not> owns None ravi"
  by (simp_all add: owns_def asha_def ravi_def scenario_employee_def)

lemma owned_db_tables:
  "db_employees owned_db = [asha, ravi]"
  "db_wages owned_db = [unpaid_wage, unpaid_wage\<lparr>w_id := ''w9'', w_employee_id := ''e2''\<rparr>]"
  "e_id asha = ''e1''" "e_id ravi = ''e2''" "w_employee_id unpaid_wage = ''e1''"
  by (simp_all add: owned_db_def asha_def ravi_def scenario_employee_def unpaid_wage_def)

text \<open>The C4 theorem at a database with an administrator, an employee with a login, an
  employee without one, a principal with neither role nor employee, and the anonymous
  principal, whose NULL identifier does not match the NULL link of the second employee.\<close>

theorem row_policies_witness:
  "allowed owned_db (Some ''boss'') DELETE (Wage_row unpaid_wage) \<and>
   allowed owned_db (Some ''asha'') SELECT (Employee_row asha) \<and>
   \<not> allowed owned_db (Some ''asha'') SELECT (Employee_row ravi) \<and>
   allowed owned_db (Some ''asha'') SELECT (Wage_row unpaid_wage) \<and>
   \<not> allowed owned_db (Some ''asha'') SELECT
       (Wage_row (unpaid_wage\<lparr>w_id := ''w9'', w_employee_id := ''e2''\<rparr>)) \<and>
   \<not> allowed owned_db (Some ''asha'') UPDATE (Wage_row unpaid_wage) \<and>
   \<not> allowed owned_db (Some ''guest'') SELECT (Employee_row asha) \<and>
   \<not> allowed owned_db (Some ''guest'') SELECT (Wage_row unpaid_wage) \<and>
   \<not> allowed owned_db None SELECT (Employee_row ravi)"
proof -
  have "allowed owned_db (Some ''boss'') DELETE (Wage_row unpaid_wage)"
    using row_policies [of owned_db "Some ''boss''" DELETE "Wage_row unpaid_wage"]
      owned_db_roles by blast
  moreover have "allowed owned_db (Some ''asha'') SELECT (Employee_row asha)"
    and "\<not> allowed owned_db (Some ''asha'') SELECT (Employee_row ravi)"
    using row_policies [of owned_db "Some ''asha''" SELECT _ asha]
      row_policies [of owned_db "Some ''asha''" SELECT _ ravi]
      owned_db_roles owned_db_owns by blast+
  moreover have "allowed owned_db (Some ''asha'') SELECT (Wage_row unpaid_wage)"
    and "\<not> allowed owned_db (Some ''asha'') SELECT
       (Wage_row (unpaid_wage\<lparr>w_id := ''w9'', w_employee_id := ''e2''\<rparr>))"
    and "\<not> allowed owned_db (Some ''asha'') UPDATE (Wage_row unpaid_wage)"
    using row_policies [of owned_db "Some ''asha''" SELECT _ _ _ unpaid_wage]
      row_policies [of owned_db "Some ''asha''" SELECT _ _ _
        "unpaid_wage\<lparr>w_id := ''w9'', w_employee_id := ''e2''\<rparr>"]
      row_policies [of owned_db "Some ''asha''" UPDATE _ _ _ unpaid_wage]
      owned_db_roles owned_db_owns
    by (simp_all add: owned_db_tables)
  moreover have "\<not> allowed owned_db (Some ''guest'') SELECT (Employee_row asha)"
    and "\<not> allowed owned_db (Some ''guest'') SELECT (Wage_row unpaid_wage)"
    using row_policies [of owned_db "Some ''guest''" SELECT _ asha _ unpaid_wage]
      owned_db_roles owned_db_owns
    by (simp_all add: owned_db_tables)
  moreover have "\<not> allowed owned_db None SELECT (Employee_row ravi)"
    using row_policies [of owned_db None SELECT _ ravi]
      owned_db_roles owned_db_owns
    by (simp add: owned_db_tables)
  ultimately show ?thesis
    by blast
qed

end
